theory Spec2Isabelle
  imports Complex_Main "HOL-Library.AList" "HOL-Library.Sublist"
begin

section \<open>Python values used by backend/main.py\<close>

subsection \<open>Strings\<close>

text \<open>
  A Python \<^verbatim>\<open>str\<close> is a sequence of Unicode code points; slicing and \<^verbatim>\<open>len\<close> count
  code points. A string is therefore a list of code points, and the ASCII literals of
  the source are injected with \<open>lit\<close>.
\<close>

type_synonym pystr = "nat list"

definition lit :: "string \<Rightarrow> pystr" where
  "lit s = map of_char s"

definition apostrophe :: pystr where
  "apostrophe = [39]"

subsection \<open>Floats\<close>

text \<open>
  A Python \<^verbatim>\<open>float\<close> is an IEEE-754 binary64 value: a NaN, an infinity with a sign, or a
  finite number \<open>(-1)^s * m * 2^e\<close> with a sign bit \<open>s\<close> (so that \<open>-0.0\<close> exists).
  Every double is such a triple; the model does not bound \<open>m\<close> and \<open>e\<close>, so a statement
  about every \<open>pyfloat\<close> covers every double.
\<close>

datatype pyfloat = Num bool nat int | Infty bool | NaN

definition magnitude :: "nat \<Rightarrow> int \<Rightarrow> rat" where
  "magnitude m e = (if 0 \<le> e then of_nat m * 2 ^ nat e else of_nat m / 2 ^ nat (- e))"

definition fval :: "bool \<Rightarrow> nat \<Rightarrow> int \<Rightarrow> rat" where
  "fval s m e = (if s then - magnitude m e else magnitude m e)"

text \<open>\<^verbatim>\<open>x < y\<close> on floats: false as soon as one side is NaN, by value otherwise.\<close>

fun flt :: "pyfloat \<Rightarrow> pyfloat \<Rightarrow> bool" where
  "flt (Num s m e) (Num t n f) = (fval s m e < fval t n f)"
| "flt (Num s m e) (Infty t) = (\<not> t)"
| "flt (Infty s) (Num t n f) = s"
| "flt (Infty s) (Infty t) = (s \<and> \<not> t)"
| "flt NaN y = False"
| "flt x NaN = False"

text \<open>\<^verbatim>\<open>abs(x)\<close> clears the sign; \<^verbatim>\<open>abs(nan)\<close> is NaN.\<close>

fun fabs :: "pyfloat \<Rightarrow> pyfloat" where
  "fabs (Num s m e) = Num False m e"
| "fabs (Infty s) = Infty False"
| "fabs NaN = NaN"

text \<open>
  The numeric literals of the source (\<^verbatim>\<open>36.0\<close>, \<^verbatim>\<open>41.0\<close>, \<^verbatim>\<open>-10.0\<close>, \<^verbatim>\<open>-4.0\<close>, and the
  integers \<^verbatim>\<open>20\<close> and \<^verbatim>\<open>15\<close>) are whole numbers that binary64 holds exactly. Python
  compares a float with an \<^verbatim>\<open>int\<close> by exact value, which for these integers is the
  comparison with the float of the same value.
\<close>

definition whole :: "int \<Rightarrow> pyfloat" where
  "whole i = Num (i < 0) (nat \<bar>i\<bar>) 0"

subsection \<open>Fixed-point formatting: the format spec \<^verbatim>\<open>.3f\<close>\<close>

text \<open>
  \<^verbatim>\<open>f"{x:.3f}"\<close> prints the exact value of the double rounded to three decimals, ties
  to even, with a leading \<^verbatim>\<open>-\<close> when the sign bit is set (also for \<^verbatim>\<open>-0.0\<close> and for a
  negative value that rounds to zero); infinities print as \<^verbatim>\<open>inf\<close> and \<^verbatim>\<open>-inf\<close>, every
  NaN as \<^verbatim>\<open>nan\<close>.
\<close>

fun digits :: "nat \<Rightarrow> pystr" where
  "digits n = (if n < 10 then [48 + n] else digits (n div 10) @ [48 + n mod 10])"

declare digits.simps [simp del]

definition round_half_even :: "nat \<Rightarrow> nat \<Rightarrow> nat" where
  "round_half_even a b =
     (let q = a div b; r = a mod b
      in if 2 * r < b then q
         else if b < 2 * r then q + 1
         else if even q then q else q + 1)"

definition scaled :: "nat \<Rightarrow> nat \<Rightarrow> int \<Rightarrow> nat" where
  "scaled d m e =
     (if 0 \<le> e then m * 2 ^ nat e * 10 ^ d
      else round_half_even (m * 10 ^ d) (2 ^ nat (- e)))"

definition zero_pad :: "nat \<Rightarrow> pystr \<Rightarrow> pystr" where
  "zero_pad d ds = replicate (d - length ds) 48 @ ds"

fun format_f :: "nat \<Rightarrow> pyfloat \<Rightarrow> pystr" where
  "format_f d (Num s m e) =
     (let q = scaled d m e
      in (if s then lit ''-'' else []) @ digits (q div 10 ^ d)
         @ (if d = 0 then [] else lit ''.'' @ zero_pad d (digits (q mod 10 ^ d))))"
| "format_f d (Infty s) = (if s then lit ''-inf'' else lit ''inf'')"
| "format_f d NaN = lit ''nan''"

section \<open>Place label and narrative threads\<close>

text \<open>\<^verbatim>\<open>synthetic_place_label(lat, lon)\<close>, lines 47-54.\<close>

definition synthetic_place_label :: "pyfloat \<Rightarrow> pyfloat \<Rightarrow> pystr" where
  "synthetic_place_label lat lon =
     (let coastal = (flt (fabs lon) (whole 20) \<or> flt (fabs lat) (whole 15));
          river_band = ((flt (whole 36) lat \<and> flt lat (whole 41))
                        \<and> (flt (whole (- 10)) lon \<and> flt lon (whole (- 4))))
      in if river_band then
           lit ''Riverside bend near ('' @ format_f 3 lat @ lit '', '' @ format_f 3 lon @ lit '')''
         else if coastal then
           lit ''Coastal fringe around ('' @ format_f 3 lat @ lit '', '' @ format_f 3 lon @ lit '')''
         else
           lit ''Inland ridge near ('' @ format_f 3 lat @ lit '', '' @ format_f 3 lon @ lit '')'')"

text \<open>
  A thread is a dict with the same five literal keys in every branch of
  \<^verbatim>\<open>build_threads\<close>; \<^verbatim>\<open>support_level\<close> is a plain string in the source.
\<close>

record thread =
  title :: pystr
  summary :: pystr
  support_level :: pystr
  suggested_sources :: "pystr list"
  verify_questions :: "pystr list"

text \<open>\<^verbatim>\<open>build_threads(lat, lon, note)\<close>, lines 57-134; every \<^verbatim>\<open>append\<close> extends the list.\<close>

definition build_threads :: "pyfloat \<Rightarrow> pyfloat \<Rightarrow> pystr \<Rightarrow> thread list" where
  "build_threads lat lon note =
     (let threads = [];
          is_coastal = (flt (fabs lon) (whole 20) \<or> flt (fabs lat) (whole 15));
          river_band = ((flt (whole 36) lat \<and> flt lat (whole 41))
                        \<and> (flt (whole (- 10)) lon \<and> flt lon (whole (- 4))));
          base_questions =
            [lit ''Who else keeps records of this place?'',
             lit ''What photos or maps could confirm details?'',
             lit ''Which community voices are missing here?''];
          threads =
            (if river_band then
               (threads @
                 [\<lparr>title = lit ''River trade and tides'',
                   summary = lit ''Merchant rafts once drifted here; floods rewrote paths and stories.'',
                   support_level = lit ''supported'',
                   suggested_sources = [lit ''Port records'', lit ''Oral histories'', lit ''Tide charts''],
                   verify_questions = base_questions\<rparr>]) @
                 [\<lparr>title = lit ''Bridge rumors'',
                   summary = lit ''Locals speak of a temporary bridge that appeared only at low tide.'',
                   support_level = lit ''likely'',
                   suggested_sources = [lit ''Newspaper clippings'', lit ''Municipal minutes''],
                   verify_questions = base_questions\<rparr>]
             else if is_coastal then
               (threads @
                 [\<lparr>title = lit ''Salt wind archive'',
                   summary = lit ''Fisher cooperatives indexed storms with shells strung above doorways.'',
                   support_level = lit ''likely'',
                   suggested_sources = [lit ''Family collections'', lit ''Weather logs''],
                   verify_questions = base_questions\<rparr>]) @
                 [\<lparr>title = lit ''Ship graffiti'',
                   summary = lit ''Hull markings carved by dockworkers doubled as secret navigation rhymes.'',
                   support_level = lit ''speculative'',
                   suggested_sources = [lit ''Harbor walls'', lit ''Retired sailors''],
                   verify_questions = base_questions\<rparr>]
             else
               (threads @
                 [\<lparr>title = lit ''Dry season crossings'',
                   summary = lit ''Caravans cut through here when the marshes shrank; stones still mark the line.'',
                   support_level = lit ''supported'',
                   suggested_sources = [lit ''Trail maps'', lit ''Satellite imagery''],
                   verify_questions = base_questions\<rparr>]) @
                 [\<lparr>title = lit ''Songs against dust'',
                   summary = lit ''Field choirs sang call-and-response to time irrigation releases.'',
                   support_level = lit ''likely'',
                   suggested_sources = [lit ''Local elders'', lit ''Radio archives''],
                   verify_questions = base_questions\<rparr>])
      in threads @
           [\<lparr>title = lit ''Overlay of legends'',
             summary = lit ''A traveler wrote about this spot in a note: '' @ apostrophe
                       @ take 80 note @ lit ''...' and added their own myth.'',
             support_level = lit ''speculative'',
             suggested_sources = [lit ''Personal journals'', lit ''Community forums''],
             verify_questions = base_questions\<rparr>])"

section \<open>Draft composer\<close>

text \<open>The handler of \<^verbatim>\<open>POST /draft\<close>, lines 176-196; it returns a dict with three keys.\<close>

record draft_result =
  draft_text :: pystr
  output_type :: pystr
  thread_title :: pystr

definition draft :: "pystr \<Rightarrow> pystr \<Rightarrow> pystr \<Rightarrow> draft_result" where
  "draft thread_title' output_type' note =
     (let base = lit ''From '' @ thread_title' @ lit '', your note hints: '' @ take 100 note;
          text =
            (if output_type' = lit ''micro-story'' then
               base @ lit ''. A passerby pauses as wind drags the scent of metal and salt. ''
                 @ lit ''Layers of rumor and record fold together in 140 words of compressed time.''
             else if output_type' = lit ''postcard'' then
               lit ''Caption: '' @ base
                 @ lit ''. Source note: drafted by the Portal AI backstage, please verify locally.''
             else
               lit ''Score: (1) Map a path with footsteps, pause at every third stride. ''
                 @ lit ''(2) Whisper the place name and your note. ''
                 @ lit ''(3) Offer a gesture toward the nearest landmark.'')
      in \<lparr>draft_text = text, output_type = output_type', thread_title = thread_title'\<rparr>)"

section \<open>Artifact store\<close>

text \<open>A payload is a JSON object: FastAPI hands the parsed body to the handler as a dict.\<close>

datatype json =
  JNull | JBool bool | JInt int | JFloat pyfloat | JStr pystr
  | JArr "json list" | JObj "(pystr \<times> json) list"

text \<open>
  A Python dict keeps its keys in insertion order: assigning to a key that is present
  replaces the value where it stands, assigning to an absent key appends the pair.
  This is \<open>AList.update\<close> on an association list; \<open>map_of\<close> is the lookup.

  A dict is an object: \<^verbatim>\<open>add\<close> writes into the caller's dict and keeps a reference to
  that same dict in \<^verbatim>\<open>_items\<close>. The process state therefore has the dict objects by
  reference (\<open>objs\<close>, with \<open>next_ref\<close> the first reference not yet allocated) and
  \<^verbatim>\<open>store._items\<close> as a dict from identifier to reference.

  Only the dict handed to \<^verbatim>\<open>add\<close> is held by reference; what is nested inside it is held
  by value. \<^verbatim>\<open>add\<close> writes two keys of the dict it is given and nothing below them, so
  the keys of that dict are modelled exactly. A dict that is nested inside one payload
  and is also passed to \<^verbatim>\<open>add\<close> itself is two objects here and one in Python: the
  nested copy does not follow the write. For that reason the statements about
  \<^verbatim>\<open>store.add\<close> on a caller's dict speak of the keys of stored dicts (their \<^verbatim>\<open>id\<close> and
  \<^verbatim>\<open>created_at\<close>), never of what is nested in them. A request body is parsed into
  objects of its own, so for the handlers the whole content is exact.
\<close>

type_synonym pydict = "(pystr \<times> json) list"

type_synonym ref = nat

record process =
  objs :: "ref \<Rightarrow> pydict"
  next_ref :: ref
  items :: "(pystr \<times> ref) list"

datatype py_error = KeyError pystr

text \<open>\<^verbatim>\<open>store = ArtifactStore()\<close>, line 44: no items; no dict allocated yet.\<close>

definition init :: process where
  "init = \<lparr>objs = (\<lambda>r. []), next_ref = 0, items = []\<rparr>"

text \<open>
  \<^verbatim>\<open>ArtifactStore.add\<close>, lines 28-33. The results of \<^verbatim>\<open>str(uuid.uuid4())\<close> and of
  \<^verbatim>\<open>datetime.utcnow().isoformat()\<close> come from outside the program and are the parameters
  \<open>uid\<close> and \<open>now\<close>. The method returns the reference it was given.
\<close>

definition store_add :: "pystr \<Rightarrow> pystr \<Rightarrow> ref \<Rightarrow> process \<Rightarrow> ref \<times> process" where
  "store_add uid now payload s =
     (let artifact_id = uid;
          d1 = AList.update (lit ''id'') (JStr artifact_id) (objs s payload);
          d2 = AList.update (lit ''created_at'') (JStr (now @ lit ''Z'')) d1
      in (payload,
          s\<lparr>objs := (objs s)(payload := d2),
            items := AList.update artifact_id payload (items s)\<rparr>))"

text \<open>\<^verbatim>\<open>ArtifactStore.list\<close>, lines 35-36: a new list of the stored references, in dict order.\<close>

definition store_list :: "process \<Rightarrow> ref list \<times> process" where
  "store_list s = (map snd (items s), s)"

text \<open>\<^verbatim>\<open>ArtifactStore.get\<close>, lines 38-41: \<^verbatim>\<open>KeyError\<close> for an absent key.\<close>

definition store_get :: "pystr \<Rightarrow> process \<Rightarrow> (py_error + ref) \<times> process" where
  "store_get artifact_id s =
     (if artifact_id \<notin> fst ` set (items s) then (Inl (KeyError artifact_id), s)
      else case map_of (items s) artifact_id of
             Some r \<Rightarrow> (Inr r, s)
           | None \<Rightarrow> (Inl (KeyError artifact_id), s))"

subsection \<open>The handlers\<close>

text \<open>
  A handler answers with the JSON of what it returns, or with the status and detail of
  the \<^verbatim>\<open>HTTPException\<close> it raises.
\<close>

datatype 'a response = Ok200 'a | HTTPException nat pystr

text \<open>The framework parses each request body into a dict of its own.\<close>

definition new_dict :: "pydict \<Rightarrow> process \<Rightarrow> ref \<times> process" where
  "new_dict d s =
     (next_ref s, s\<lparr>objs := (objs s)(next_ref s := d), next_ref := Suc (next_ref s)\<rparr>)"

text \<open>\<^verbatim>\<open>POST /artifact\<close>, lines 199-202.\<close>

definition save_artifact :: "pystr \<Rightarrow> pystr \<Rightarrow> pydict \<Rightarrow> process \<Rightarrow> pydict response \<times> process" where
  "save_artifact uid now body s =
     (let (payload, s1) = new_dict body s;
          (saved, s2) = store_add uid now payload s1
      in (Ok200 (objs s2 saved), s2))"

text \<open>\<^verbatim>\<open>GET /artifacts\<close>, lines 205-207.\<close>

definition list_artifacts :: "process \<Rightarrow> pydict response \<times> process" where
  "list_artifacts s =
     (let (rs, s1) = store_list s
      in (Ok200 [(lit ''items'', JArr (map (\<lambda>r. JObj (objs s1 r)) rs))], s1))"

text \<open>\<^verbatim>\<open>GET /artifact/{artifact_id}\<close>, lines 210-216.\<close>

definition get_artifact :: "pystr \<Rightarrow> process \<Rightarrow> pydict response \<times> process" where
  "get_artifact artifact_id s =
     (case store_get artifact_id s of
        (Inl (KeyError k), s1) \<Rightarrow> (HTTPException 404 (lit ''Artifact not found''), s1)
      | (Inr item, s1) \<Rightarrow> (Ok200 (objs s1 item), s1))"

section \<open>The band predicates, as the specification words them\<close>

text \<open>
  Section 4.1 of the specification: river band iff \<^verbatim>\<open>36.0 < lat < 41.0\<close> and
  \<^verbatim>\<open>-10.0 < lon < -4.0\<close>; coastal test \<^verbatim>\<open>abs(lon) < 20\<close> or \<^verbatim>\<open>abs(lat) < 15\<close>. They
  are abbreviations, so every statement below shows the comparisons themselves; the two
  source functions above each compute their own copy.
\<close>

abbreviation in_river_band :: "pyfloat \<Rightarrow> pyfloat \<Rightarrow> bool" where
  "in_river_band lat lon \<equiv>
     (flt (whole 36) lat \<and> flt lat (whole 41)) \<and> (flt (whole (- 10)) lon \<and> flt lon (whole (- 4)))"

abbreviation near_coast :: "pyfloat \<Rightarrow> pyfloat \<Rightarrow> bool" where
  "near_coast lat lon \<equiv> flt (fabs lon) (whole 20) \<or> flt (fabs lat) (whole 15)"

section \<open>The store invariant and example runs\<close>

text \<open>
  The \<^verbatim>\<open>id\<close> fields of the stored artifacts, in the order of \<^verbatim>\<open>store.list()\<close>.
\<close>

definition stored_ids :: "process \<Rightarrow> json option list" where
  "stored_ids s = map (\<lambda>r. map_of (objs s r) (lit ''id'')) (fst (store_list s))"

text \<open>
  The invariant: the keys of \<^verbatim>\<open>_items\<close> are distinct (it is a dict), no dict object is
  stored under two keys, every stored reference is an allocated dict, and the \<^verbatim>\<open>id\<close>
  field of each stored artifact is the key it is stored under.
\<close>

definition store_ok :: "process \<Rightarrow> bool" where
  "store_ok s =
     (distinct (map fst (items s)) \<and> distinct (map snd (items s))
      \<and> list_all (\<lambda>(k, r). r < next_ref s \<and> map_of (objs s r) (lit ''id'') = Some (JStr k))
           (items s))"

text \<open>
  Three runs from the empty store. In the first, \<^verbatim>\<open>POST /artifact\<close> saves \<^verbatim>\<open>{"x": 1}\<close>, a
  second body \<^verbatim>\<open>{"y": 2}\<close> is parsed into a dict of its own and added under a new
  identifier. In the second, the dict \<^verbatim>\<open>{"x": 1}\<close> is passed to \<^verbatim>\<open>store.add\<close> and then
  passed to it again. In the third, \<^verbatim>\<open>POST /artifact\<close> saves \<^verbatim>\<open>{"x": 1}\<close> and then
  \<^verbatim>\<open>{"y": 2}\<close>, and \<^verbatim>\<open>uuid4\<close> gives the second the identifier it gave the first.
\<close>

definition first_saved :: process where
  "first_saved =
     snd (save_artifact (lit ''u-1'') (lit ''2024-05-01T12:00:00'') [(lit ''x'', JInt 1)] init)"

definition second_parsed :: process where
  "second_parsed = snd (new_dict [(lit ''y'', JInt 2)] first_saved)"

definition second_added :: process where
  "second_added = snd (store_add (lit ''u-2'') (lit ''2024-05-01T12:00:07'') 1 second_parsed)"

definition added_once :: process where
  "added_once =
     snd (store_add (lit ''u-1'') (lit ''2024-05-01T12:00:00'') 0
            (snd (new_dict [(lit ''x'', JInt 1)] init)))"

definition added_again :: process where
  "added_again = snd (store_add (lit ''u-2'') (lit ''2024-05-01T12:00:07'') 0 added_once)"

definition saved_over :: process where
  "saved_over =
     snd (save_artifact (lit ''u-1'') (lit ''2024-05-01T12:00:07'') [(lit ''y'', JInt 2)] first_saved)"

section \<open>Evaluation helpers\<close>

lemma lit_append: "lit (a @ b) = lit a @ lit b"
  by (simp add: lit_def)

lemma replicate_numeral: "replicate (numeral k) x = x # replicate (pred_numeral k) x"
  by (simp add: numeral_eq_Suc)

lemmas float_eval = whole_def fval_def magnitude_def

lemmas format_eval =
  scaled_def round_half_even_def Let_def digits.simps zero_pad_def lit_def replicate_numeral

section \<open>Properties of the place label\<close>

text \<open>
  C1. For every \<open>(lat, lon)\<close>: inside the river band the label is
  \<^verbatim>\<open>Riverside bend near (\<close> followed by \<open>lat\<close> and \<open>lon\<close> printed with three decimals;
  otherwise, when the coastal test holds, it is the \<^verbatim>\<open>Coastal fringe around (\<close> label;
  otherwise the \<^verbatim>\<open>Inland ridge near (\<close> label. The first implication has no coastal
  side condition, so the river band wins where both tests hold.
\<close>

theorem place_label_by_band:
  "(in_river_band lat lon \<longrightarrow>
      synthetic_place_label lat lon =
        lit ''Riverside bend near ('' @ format_f 3 lat @ lit '', '' @ format_f 3 lon @ lit '')'')
   \<and> (\<not> in_river_band lat lon \<and> near_coast lat lon \<longrightarrow>
      synthetic_place_label lat lon =
        lit ''Coastal fringe around ('' @ format_f 3 lat @ lit '', '' @ format_f 3 lon @ lit '')'')
   \<and> (\<not> in_river_band lat lon \<and> \<not> near_coast lat lon \<longrightarrow>
      synthetic_place_label lat lon =
        lit ''Inland ridge near ('' @ format_f 3 lat @ lit '', '' @ format_f 3 lon @ lit '')'')"
  unfolding synthetic_place_label_def Let_def by simp

text \<open>
  The specification's three examples: \<open>(38.7, -9.1)\<close>, with the doubles nearest to
  \<open>38.7\<close> and \<open>-9.1\<close>, then \<open>(10.0, 5.0)\<close> and \<open>(50.0, 100.0)\<close>.
\<close>

theorem place_label_by_band_witness:
  "in_river_band (Num False 5446540799351194 (- 47)) (Num True 5122844576133939 (- 49))
   \<and> synthetic_place_label (Num False 5446540799351194 (- 47)) (Num True 5122844576133939 (- 49))
       = lit ''Riverside bend near (38.700, -9.100)''
   \<and> (\<not> in_river_band (whole 10) (whole 5) \<and> near_coast (whole 10) (whole 5))
   \<and> synthetic_place_label (whole 10) (whole 5) = lit ''Coastal fringe around (10.000, 5.000)''
   \<and> (\<not> in_river_band (whole 50) (whole 100) \<and> \<not> near_coast (whole 50) (whole 100))
   \<and> synthetic_place_label (whole 50) (whole 100) = lit ''Inland ridge near (50.000, 100.000)''"
proof -
  let ?lisbon_lat = "Num False 5446540799351194 (- 47)"
  let ?lisbon_lon = "Num True 5122844576133939 (- 49)"
  have r: "in_river_band ?lisbon_lat ?lisbon_lon"
    by (simp add: float_eval)
  have c: "\<not> in_river_band (whole 10) (whole 5) \<and> near_coast (whole 10) (whole 5)"
    by (simp add: float_eval)
  have i: "\<not> in_river_band (whole 50) (whole 100) \<and> \<not> near_coast (whole 50) (whole 100)"
    by (simp add: float_eval)
  have f1: "format_f 3 ?lisbon_lat = lit ''38.700''" by (simp add: format_eval)
  have f2: "format_f 3 ?lisbon_lon = lit ''-9.100''" by (simp add: format_eval)
  have f3: "format_f 3 (whole 10) = lit ''10.000''" by (simp add: whole_def format_eval)
  have f4: "format_f 3 (whole 5) = lit ''5.000''" by (simp add: whole_def format_eval)
  have f5: "format_f 3 (whole 50) = lit ''50.000''" by (simp add: whole_def format_eval)
  have f6: "format_f 3 (whole 100) = lit ''100.000''" by (simp add: whole_def format_eval)
  from place_label_by_band [of ?lisbon_lat ?lisbon_lon] r
  have l1: "synthetic_place_label ?lisbon_lat ?lisbon_lon = lit ''Riverside bend near (38.700, -9.100)''"
    by (simp only: f1 f2 flip: lit_append) simp
  from place_label_by_band [of "whole 10" "whole 5"] c
  have l2: "synthetic_place_label (whole 10) (whole 5) = lit ''Coastal fringe around (10.000, 5.000)''"
    by (simp only: f3 f4 flip: lit_append) simp
  from place_label_by_band [of "whole 50" "whole 100"] i
  have l3: "synthetic_place_label (whole 50) (whole 100) = lit ''Inland ridge near (50.000, 100.000)''"
    by (simp only: f5 f6 flip: lit_append) simp
  from r c i l1 l2 l3 show ?thesis by blast
qed

section \<open>Properties of the threads\<close>

lemma flt_NaN_right: "flt x NaN = False"
  by (cases x) simp_all

lemma take_min_length: "take (min (length xs) n) xs = take n xs"
  by (cases "length xs \<le> n") (simp_all add: min_def)

text \<open>
  The titles of the first two threads, by band: the content of the lookup table of
  section 4.2, read off the three branches of \<^verbatim>\<open>build_threads\<close>.
\<close>

lemma first_titles:
  "map title (take 2 (build_threads lat lon note))
     = (if in_river_band lat lon then [lit ''River trade and tides'', lit ''Bridge rumors'']
        else if near_coast lat lon then [lit ''Salt wind archive'', lit ''Ship graffiti'']
        else [lit ''Dry season crossings'', lit ''Songs against dust''])"
  unfolding build_threads_def Let_def by simp

lemma title_pairs_differ:
  "[lit ''River trade and tides'', lit ''Bridge rumors''] \<noteq> [lit ''Salt wind archive'', lit ''Ship graffiti'']"
  "[lit ''River trade and tides'', lit ''Bridge rumors''] \<noteq> [lit ''Dry season crossings'', lit ''Songs against dust'']"
  "[lit ''Salt wind archive'', lit ''Ship graffiti''] \<noteq> [lit ''Dry season crossings'', lit ''Songs against dust'']"
  by (simp_all add: lit_def)

lemma label_prefixes_differ:
  "\<not> prefix (lit ''Riverside bend near ('') (lit ''Coastal fringe around ('' @ r)"
  "\<not> prefix (lit ''Riverside bend near ('') (lit ''Inland ridge near ('' @ r)"
  "\<not> prefix (lit ''Coastal fringe around ('') (lit ''Riverside bend near ('' @ r)"
  "\<not> prefix (lit ''Coastal fringe around ('') (lit ''Inland ridge near ('' @ r)"
  "\<not> prefix (lit ''Inland ridge near ('') (lit ''Riverside bend near ('' @ r)"
  "\<not> prefix (lit ''Inland ridge near ('') (lit ''Coastal fringe around ('' @ r)"
  by (simp_all add: lit_def)

lemma prefix_of_append: "prefix a (a @ r)"
  by simp

text \<open>
  C2. For every \<open>(lat, lon)\<close> and every note, the label and the threads are of the
  same band: the label starts with \<^verbatim>\<open>Riverside bend near (\<close> exactly when the first two
  threads are titled \<^verbatim>\<open>River trade and tides\<close> and \<^verbatim>\<open>Bridge rumors\<close>, with
  \<^verbatim>\<open>Coastal fringe around (\<close> exactly when they are \<^verbatim>\<open>Salt wind archive\<close> and
  \<^verbatim>\<open>Ship graffiti\<close>, and with \<^verbatim>\<open>Inland ridge near (\<close> exactly when they are
  \<^verbatim>\<open>Dry season crossings\<close> and \<^verbatim>\<open>Songs against dust\<close>.
\<close>

theorem label_agrees_with_threads:
  "(prefix (lit ''Riverside bend near ('') (synthetic_place_label lat lon)
      = (map title (take 2 (build_threads lat lon note))
           = [lit ''River trade and tides'', lit ''Bridge rumors'']))
   \<and> (prefix (lit ''Coastal fringe around ('') (synthetic_place_label lat lon)
      = (map title (take 2 (build_threads lat lon note))
           = [lit ''Salt wind archive'', lit ''Ship graffiti'']))
   \<and> (prefix (lit ''Inland ridge near ('') (synthetic_place_label lat lon)
      = (map title (take 2 (build_threads lat lon note))
           = [lit ''Dry season crossings'', lit ''Songs against dust'']))"
proof -
  note differ = title_pairs_differ title_pairs_differ [symmetric] label_prefixes_differ
  show ?thesis
  proof (cases "in_river_band lat lon")
    case True
    then show ?thesis
      unfolding first_titles synthetic_place_label_def Let_def
      by (simp only: if_True differ prefix_of_append simp_thms)
  next
    case False
    note nr = this
    show ?thesis
    proof (cases "near_coast lat lon")
      case True
      with nr show ?thesis
        unfolding first_titles synthetic_place_label_def Let_def
        by (simp only: if_True if_False differ prefix_of_append simp_thms)
    next
      case False
      with nr show ?thesis
        unfolding first_titles synthetic_place_label_def Let_def
        by (simp only: if_False differ prefix_of_append simp_thms)
    qed
  qed
qed

text \<open>
  C3. For every \<open>(lat, lon)\<close> and every note, \<^verbatim>\<open>build_threads\<close> returns exactly three
  threads; the first two carry the titles and support levels of the band's row of the
  lookup table; the last is titled \<^verbatim>\<open>Overlay of legends\<close>; and each of the three has
  the same list of three fixed verification questions.
\<close>

theorem build_threads_shape:
  "length (build_threads lat lon note) = 3
   \<and> map (\<lambda>t. (title t, support_level t)) (take 2 (build_threads lat lon note))
       = (if in_river_band lat lon then
            [(lit ''River trade and tides'', lit ''supported''), (lit ''Bridge rumors'', lit ''likely'')]
          else if near_coast lat lon then
            [(lit ''Salt wind archive'', lit ''likely''), (lit ''Ship graffiti'', lit ''speculative'')]
          else
            [(lit ''Dry season crossings'', lit ''supported''), (lit ''Songs against dust'', lit ''likely'')])
   \<and> title (last (build_threads lat lon note)) = lit ''Overlay of legends''
   \<and> map verify_questions (build_threads lat lon note)
       = replicate 3
           [lit ''Who else keeps records of this place?'',
            lit ''What photos or maps could confirm details?'',
            lit ''Which community voices are missing here?'']"
  unfolding build_threads_def Let_def by (simp add: replicate_numeral)

text \<open>
  C4. For every note, the summary of the last thread is the fixed sentence around the
  first \<open>min (length note) 80\<close> characters of the note, unchanged; a note shorter than
  80 characters appears whole.
\<close>

theorem overlay_summary_embeds_note:
  "summary (last (build_threads lat lon note))
     = lit ''A traveler wrote about this spot in a note: '' @ apostrophe
       @ take (min (length note) 80) note @ lit ''...' and added their own myth.''
   \<and> (length note < 80 \<longrightarrow>
        summary (last (build_threads lat lon note))
          = lit ''A traveler wrote about this spot in a note: '' @ apostrophe
            @ note @ lit ''...' and added their own myth.'')"
  unfolding build_threads_def Let_def by (simp add: take_min_length)

theorem overlay_summary_embeds_note_witness:
  "length (lit ''fog at dawn'') < 80
   \<and> summary (last (build_threads (whole 10) (whole 5) (lit ''fog at dawn'')))
       = lit ''A traveler wrote about this spot in a note: 'fog at dawn...' and added their own myth.''"
proof -
  have short: "length (lit ''fog at dawn'') < 80"
    by (simp add: lit_def)
  from overlay_summary_embeds_note [of "whole 10" "whole 5" "lit ''fog at dawn''"] short
  have "summary (last (build_threads (whole 10) (whole 5) (lit ''fog at dawn'')))
          = lit ''A traveler wrote about this spot in a note: '' @ apostrophe
            @ lit ''fog at dawn'' @ lit ''...' and added their own myth.''"
    by blast
  then show ?thesis using short
    by (simp add: lit_def apostrophe_def)
qed

text \<open>
  C9. For every note, the summary of the third thread is the template with the first
  80 characters of the note followed by three dots and the closing apostrophe, whatever
  the length of the note; so a note and its first 80 characters give the same summary,
  and the summary does not show whether the note was cut.
\<close>

theorem overlay_ellipsis_always:
  "summary (build_threads lat lon note ! 2)
     = lit ''A traveler wrote about this spot in a note: '' @ apostrophe
       @ take 80 note @ lit ''...'' @ apostrophe @ lit '' and added their own myth.''
   \<and> summary (build_threads lat lon (take 80 note) ! 2)
       = summary (build_threads lat lon note ! 2)"
  unfolding build_threads_def Let_def by (simp add: lit_def apostrophe_def)

section \<open>Properties of the draft composer\<close>

text \<open>
  C5. For every thread title, output type and note: the output type \<^verbatim>\<open>micro-story\<close>
  gives \<^verbatim>\<open>From {thread_title}, your note hints: \<close> with the first 100 characters of
  the note and the fixed continuation; \<^verbatim>\<open>postcard\<close> gives the same base after
  \<^verbatim>\<open>Caption: \<close>, with the fixed source remark; every other output type (the comparison
  is exact, so another capitalisation or the empty string count as other) gives the
  fixed three-step score text, in which neither the note nor the title occurs.
\<close>

theorem draft_by_output_type:
  "draft_text (draft thread_title' (lit ''micro-story'') note)
     = lit ''From '' @ thread_title' @ lit '', your note hints: '' @ take 100 note
       @ lit ''. A passerby pauses as wind drags the scent of metal and salt. ''
       @ lit ''Layers of rumor and record fold together in 140 words of compressed time.''
   \<and> draft_text (draft thread_title' (lit ''postcard'') note)
     = lit ''Caption: From '' @ thread_title' @ lit '', your note hints: '' @ take 100 note
       @ lit ''. Source note: drafted by the Portal AI backstage, please verify locally.''
   \<and> (output_type' \<noteq> lit ''micro-story'' \<and> output_type' \<noteq> lit ''postcard'' \<longrightarrow>
        draft_text (draft thread_title' output_type' note)
          = lit ''Score: (1) Map a path with footsteps, pause at every third stride. ''
            @ lit ''(2) Whisper the place name and your note. ''
            @ lit ''(3) Offer a gesture toward the nearest landmark.'')"
  unfolding draft_def Let_def by (simp add: lit_def)

theorem draft_by_output_type_witness:
  "(lit ''Postcard'' \<noteq> lit ''micro-story'' \<and> lit ''Postcard'' \<noteq> lit ''postcard'')
   \<and> draft_text (draft (lit ''T'') (lit ''Postcard'') (lit ''hello''))
       = lit ''Score: (1) Map a path with footsteps, pause at every third stride. (2) Whisper the place name and your note. (3) Offer a gesture toward the nearest landmark.''
   \<and> ([] \<noteq> lit ''micro-story'' \<and> [] \<noteq> lit ''postcard'')
   \<and> draft_text (draft (lit ''Bridge rumors'') [] (lit ''another note''))
       = lit ''Score: (1) Map a path with footsteps, pause at every third stride. (2) Whisper the place name and your note. (3) Offer a gesture toward the nearest landmark.''
   \<and> draft_text (draft (lit ''T'') (lit ''micro-story'') (lit ''hello''))
       = lit ''From T, your note hints: hello. A passerby pauses as wind drags the scent of metal and salt. Layers of rumor and record fold together in 140 words of compressed time.''
   \<and> draft_text (draft (lit ''T'') (lit ''postcard'') (lit ''hello''))
       = lit ''Caption: From T, your note hints: hello. Source note: drafted by the Portal AI backstage, please verify locally.''"
proof -
  have other: "lit ''Postcard'' \<noteq> lit ''micro-story'' \<and> lit ''Postcard'' \<noteq> lit ''postcard''"
    by (simp add: lit_def)
  have empty: "[] \<noteq> lit ''micro-story'' \<and> [] \<noteq> lit ''postcard''"
    by (simp add: lit_def)
  have short: "take 100 (lit ''hello'') = lit ''hello''"
    by (simp add: lit_def)
  note thm1 = draft_by_output_type [of "lit ''T''" "lit ''hello''" "lit ''Postcard''"]
  note thm2 = draft_by_output_type [of "lit ''Bridge rumors''" "lit ''another note''" "[]"]
  from thm1 other
  have a: "draft_text (draft (lit ''T'') (lit ''Postcard'') (lit ''hello''))
       = lit ''Score: (1) Map a path with footsteps, pause at every third stride. (2) Whisper the place name and your note. (3) Offer a gesture toward the nearest landmark.''"
    by (simp only: flip: lit_append) simp
  from thm2 empty
  have b: "draft_text (draft (lit ''Bridge rumors'') [] (lit ''another note''))
       = lit ''Score: (1) Map a path with footsteps, pause at every third stride. (2) Whisper the place name and your note. (3) Offer a gesture toward the nearest landmark.''"
    by (simp only: flip: lit_append) simp
  from thm1
  have c: "draft_text (draft (lit ''T'') (lit ''micro-story'') (lit ''hello''))
       = lit ''From T, your note hints: hello. A passerby pauses as wind drags the scent of metal and salt. Layers of rumor and record fold together in 140 words of compressed time.''"
    by (simp only: short flip: lit_append) simp
  from thm1
  have d: "draft_text (draft (lit ''T'') (lit ''postcard'') (lit ''hello''))
       = lit ''Caption: From T, your note hints: hello. Source note: drafted by the Portal AI backstage, please verify locally.''"
    by (simp only: short flip: lit_append) simp
  from other empty a b c d show ?thesis by blast
qed

section \<open>Properties at NaN coordinates\<close>

text \<open>
  C10, as amended. When \<open>lat\<close> or \<open>lon\<close> is NaN the river-band test is false. The
  coastal test is then decided by the other coordinate alone (\<^verbatim>\<open>abs(lon) < 20\<close> for a NaN
  latitude, \<^verbatim>\<open>abs(lat) < 15\<close> for a NaN longitude) and is false when both are NaN. Where
  it is false the label is the inland one and the threads start with the inland pair;
  where it is true they are the coastal ones.
\<close>

theorem nan_input_band:
  "(lat = NaN \<or> lon = NaN \<longrightarrow> \<not> in_river_band lat lon)
   \<and> near_coast NaN lon = flt (fabs lon) (whole 20)
   \<and> near_coast lat NaN = flt (fabs lat) (whole 15)
   \<and> \<not> near_coast NaN NaN
   \<and> ((lat = NaN \<or> lon = NaN) \<and> \<not> near_coast lat lon \<longrightarrow>
        synthetic_place_label lat lon
          = lit ''Inland ridge near ('' @ format_f 3 lat @ lit '', '' @ format_f 3 lon @ lit '')''
        \<and> map title (take 2 (build_threads lat lon note))
          = [lit ''Dry season crossings'', lit ''Songs against dust''])
   \<and> ((lat = NaN \<or> lon = NaN) \<and> near_coast lat lon \<longrightarrow>
        synthetic_place_label lat lon
          = lit ''Coastal fringe around ('' @ format_f 3 lat @ lit '', '' @ format_f 3 lon @ lit '')''
        \<and> map title (take 2 (build_threads lat lon note))
          = [lit ''Salt wind archive'', lit ''Ship graffiti''])"
proof -
  have river: "lat = NaN \<or> lon = NaN \<Longrightarrow> \<not> in_river_band lat lon"
    by (auto simp: flt_NaN_right)
  have "near_coast NaN lon = flt (fabs lon) (whole 20)"
    and "near_coast lat NaN = flt (fabs lat) (whole 15)"
    and "\<not> near_coast NaN NaN"
    by (simp_all add: whole_def)
  moreover have "(lat = NaN \<or> lon = NaN) \<and> \<not> near_coast lat lon \<longrightarrow>
        synthetic_place_label lat lon
          = lit ''Inland ridge near ('' @ format_f 3 lat @ lit '', '' @ format_f 3 lon @ lit '')''
        \<and> map title (take 2 (build_threads lat lon note))
          = [lit ''Dry season crossings'', lit ''Songs against dust'']"
    using river unfolding first_titles synthetic_place_label_def Let_def by auto
  moreover have "(lat = NaN \<or> lon = NaN) \<and> near_coast lat lon \<longrightarrow>
        synthetic_place_label lat lon
          = lit ''Coastal fringe around ('' @ format_f 3 lat @ lit '', '' @ format_f 3 lon @ lit '')''
        \<and> map title (take 2 (build_threads lat lon note))
          = [lit ''Salt wind archive'', lit ''Ship graffiti'']"
    using river unfolding first_titles synthetic_place_label_def Let_def by auto
  ultimately show ?thesis using river by blast
qed

theorem nan_input_band_witness:
  "((NaN :: pyfloat) = NaN \<or> whole 100 = NaN) \<and> \<not> near_coast NaN (whole 100)
   \<and> synthetic_place_label NaN (whole 100) = lit ''Inland ridge near (nan, 100.000)''
   \<and> map title (take 2 (build_threads NaN (whole 100) (lit ''dust'')))
       = [lit ''Dry season crossings'', lit ''Songs against dust'']
   \<and> (whole 5 = NaN \<or> (NaN :: pyfloat) = NaN) \<and> near_coast (whole 5) NaN
   \<and> synthetic_place_label (whole 5) NaN = lit ''Coastal fringe around (5.000, nan)''
   \<and> map title (take 2 (build_threads (whole 5) NaN (lit ''salt'')))
       = [lit ''Salt wind archive'', lit ''Ship graffiti'']"
proof -
  have far: "((NaN :: pyfloat) = NaN \<or> whole 100 = NaN) \<and> \<not> near_coast NaN (whole 100)"
    by (simp add: float_eval)
  have close: "(whole 5 = NaN \<or> (NaN :: pyfloat) = NaN) \<and> near_coast (whole 5) NaN"
    by (simp add: float_eval)
  have f100: "format_f 3 (whole 100) = lit ''100.000''"
    by (simp add: whole_def format_eval)
  have f5: "format_f 3 (whole 5) = lit ''5.000''"
    by (simp add: whole_def format_eval)
  have fnan: "format_f 3 NaN = lit ''nan''"
    by simp
  from nan_input_band [of NaN "whole 100" "lit ''dust''"] far
  have inland: "synthetic_place_label NaN (whole 100)
                  = lit ''Inland ridge near ('' @ format_f 3 NaN @ lit '', '' @ format_f 3 (whole 100) @ lit '')''
                \<and> map title (take 2 (build_threads NaN (whole 100) (lit ''dust'')))
                  = [lit ''Dry season crossings'', lit ''Songs against dust'']"
    by blast
  from nan_input_band [of "whole 5" NaN "lit ''salt''"] close
  have coastal: "synthetic_place_label (whole 5) NaN
                  = lit ''Coastal fringe around ('' @ format_f 3 (whole 5) @ lit '', '' @ format_f 3 NaN @ lit '')''
                \<and> map title (take 2 (build_threads (whole 5) NaN (lit ''salt'')))
                  = [lit ''Salt wind archive'', lit ''Ship graffiti'']"
    by blast
  have l1: "synthetic_place_label NaN (whole 100) = lit ''Inland ridge near (nan, 100.000)''"
    using inland by (simp only: f100 fnan flip: lit_append) simp
  have l2: "synthetic_place_label (whole 5) NaN = lit ''Coastal fringe around (5.000, nan)''"
    using coastal by (simp only: f5 fnan flip: lit_append) simp
  from far close inland coastal l1 l2 show ?thesis by blast
qed

text \<open>
  The claim as first stated (a NaN coordinate always gives inland) fails at
  \<open>lat = NaN\<close>, \<open>lon = 5.0\<close>: \<^verbatim>\<open>abs(5.0) < 20\<close> holds, so the input is coastal.
\<close>

theorem nan_lat_can_be_coastal:
  "near_coast NaN (whole 5)
   \<and> synthetic_place_label NaN (whole 5) = lit ''Coastal fringe around (nan, 5.000)''
   \<and> map title (take 2 (build_threads NaN (whole 5) []))
       = [lit ''Salt wind archive'', lit ''Ship graffiti'']"
proof -
  have c: "near_coast NaN (whole 5)"
    by (simp add: float_eval)
  have f: "format_f 3 (whole 5) = lit ''5.000''"
    by (simp add: whole_def format_eval)
  have l: "synthetic_place_label NaN (whole 5) = lit ''Coastal fringe around (nan, 5.000)''"
    unfolding synthetic_place_label_def Let_def using c
    by (simp only: flt.simps simp_thms if_True if_False f format_f.simps flip: lit_append) simp
  have t: "map title (take 2 (build_threads NaN (whole 5) []))
             = [lit ''Salt wind archive'', lit ''Ship graffiti'']"
    unfolding first_titles using c by simp
  from c l t show ?thesis by blast
qed

section \<open>Properties of the artifact store\<close>

lemma update_absent: "k \<notin> fst ` set al \<Longrightarrow> AList.update k v al = al @ [(k, v)]"
  by (induction al) auto

lemma id_not_created_at: "lit ''id'' \<noteq> lit ''created_at''"
  by (simp add: lit_def)

lemma stamped_id:
  "map_of (AList.update (lit ''created_at'') c (AList.update (lit ''id'') i d)) (lit ''id'') = Some i"
  by (simp add: update_conv' id_not_created_at)

lemma stamped_created_at:
  "map_of (AList.update (lit ''created_at'') c (AList.update (lit ''id'') i d)) (lit ''created_at'') = Some c"
  by (simp add: update_conv')

lemma stamped_other:
  "k \<noteq> lit ''id'' \<Longrightarrow> k \<noteq> lit ''created_at'' \<Longrightarrow>
   map_of (AList.update (lit ''created_at'') c (AList.update (lit ''id'') i d)) k = map_of d k"
  by (simp add: update_conv')


lemma stamped_keys:
  "fst ` set (AList.update (lit ''created_at'') c (AList.update (lit ''id'') i d))
     = fst ` set d \<union> {lit ''id'', lit ''created_at''}"
  unfolding dom_update by blast

lemma store_get_present:
  assumes "map_of (items s) k = Some r"
  shows "store_get k s = (Inr r, s)"
proof -
  from assms have "(k, r) \<in> set (items s)"
    by (rule map_of_SomeD)
  then have "k \<in> fst ` set (items s)"
    by (rule image_eqI [rotated]) simp
  with assms show ?thesis
    by (simp add: store_get_def)
qed

lemma store_get_absent:
  "k \<notin> fst ` set (items s) \<Longrightarrow> store_get k s = (Inl (KeyError k), s)"
  by (simp add: store_get_def)

lemma store_add_eq:
  "store_add uid now payload s =
     (payload,
      s\<lparr>objs := (objs s)(payload :=
             AList.update (lit ''created_at'') (JStr (now @ lit ''Z''))
               (AList.update (lit ''id'') (JStr uid) (objs s payload))),
        items := AList.update uid payload (items s)\<rparr>)"
  by (simp add: store_add_def Let_def)


text \<open>
  C6. For every record, \<^verbatim>\<open>store.add\<close> returns the record it was given, now holding
  \<^verbatim>\<open>id\<close> set to the generated identifier and \<^verbatim>\<open>created_at\<close> set to the timestamp
  followed by \<^verbatim>\<open>Z\<close> (each overwritten when the caller supplied it, appended otherwise);
  every other key keeps its value and no other key appears; and \<^verbatim>\<open>store.get\<close> of the
  identifier then returns that same record, leaving the state as it is.
\<close>

theorem add_then_get:
  assumes "store_add uid now payload s = (saved, s')"
  shows "saved = payload
    \<and> objs s' saved
        = AList.update (lit ''created_at'') (JStr (now @ lit ''Z''))
            (AList.update (lit ''id'') (JStr uid) (objs s payload))
    \<and> map_of (objs s' saved) (lit ''id'') = Some (JStr uid)
    \<and> map_of (objs s' saved) (lit ''created_at'') = Some (JStr (now @ lit ''Z''))
    \<and> (\<forall>k. k \<noteq> lit ''id'' \<and> k \<noteq> lit ''created_at'' \<longrightarrow>
          map_of (objs s' saved) k = map_of (objs s payload) k)
    \<and> fst ` set (objs s' saved) = fst ` set (objs s payload) \<union> {lit ''id'', lit ''created_at''}
    \<and> store_get uid s' = (Inr saved, s')"
proof -
  let ?d = "AList.update (lit ''created_at'') (JStr (now @ lit ''Z''))
              (AList.update (lit ''id'') (JStr uid) (objs s payload))"
  have pair: "payload = saved
      \<and> s\<lparr>objs := (objs s)(payload := ?d), items := AList.update uid payload (items s)\<rparr> = s'"
    using assms unfolding store_add_eq prod.inject .
  then have saved: "saved = payload"
    by (rule conjunct1 [THEN sym])
  from pair have s': "s' = s\<lparr>objs := (objs s)(payload := ?d),
                                items := AList.update uid payload (items s)\<rparr>"
    by (rule conjunct2 [THEN sym])
  have content: "objs s' saved = ?d"
    unfolding s' saved by simp
  have "map_of (items s') uid = Some saved"
    unfolding s' saved by (simp add: update_conv')
  then have get: "store_get uid s' = (Inr saved, s')"
    by (rule store_get_present)
  have other: "\<forall>k. k \<noteq> lit ''id'' \<and> k \<noteq> lit ''created_at'' \<longrightarrow>
          map_of (objs s' saved) k = map_of (objs s payload) k"
    unfolding content by (intro allI impI, elim conjE) (rule stamped_other)
  have keys: "fst ` set (objs s' saved) = fst ` set (objs s payload) \<union> {lit ''id'', lit ''created_at''}"
    unfolding content by (rule stamped_keys)
  have i: "map_of (objs s' saved) (lit ''id'') = Some (JStr uid)"
    unfolding content by (rule stamped_id)
  have c: "map_of (objs s' saved) (lit ''created_at'') = Some (JStr (now @ lit ''Z''))"
    unfolding content by (rule stamped_created_at)
  from saved content i c other keys get show ?thesis
    by (intro conjI)
qed


text \<open>The specification's example \<^verbatim>\<open>store.add({"x": 1})\<close>, on the first dict allocated.\<close>

theorem add_then_get_witness:
  "store_add (lit ''u-1'') (lit ''2024-05-01T12:00:00'') 0 (snd (new_dict [(lit ''x'', JInt 1)] init))
     = (0, snd (store_add (lit ''u-1'') (lit ''2024-05-01T12:00:00'') 0
                  (snd (new_dict [(lit ''x'', JInt 1)] init))))
   \<and> objs (snd (store_add (lit ''u-1'') (lit ''2024-05-01T12:00:00'') 0
                  (snd (new_dict [(lit ''x'', JInt 1)] init)))) 0
       = [(lit ''x'', JInt 1), (lit ''id'', JStr (lit ''u-1'')),
          (lit ''created_at'', JStr (lit ''2024-05-01T12:00:00Z''))]
   \<and> store_get (lit ''u-1'')
         (snd (store_add (lit ''u-1'') (lit ''2024-05-01T12:00:00'') 0
                 (snd (new_dict [(lit ''x'', JInt 1)] init))))
       = (Inr 0, snd (store_add (lit ''u-1'') (lit ''2024-05-01T12:00:00'') 0
                        (snd (new_dict [(lit ''x'', JInt 1)] init))))"
proof -
  let ?s0 = "snd (new_dict [(lit ''x'', JInt 1)] init)"
  let ?r = "store_add (lit ''u-1'') (lit ''2024-05-01T12:00:00'') 0 ?s0"
  have run: "?r = (fst ?r, snd ?r)"
    by simp
  note facts = add_then_get [OF run]
  have ret: "fst ?r = 0"
    using facts by blast
  have before: "objs ?s0 0 = [(lit ''x'', JInt 1)]"
    by (simp add: new_dict_def init_def)
  have keys: "lit ''x'' \<noteq> lit ''id''" "lit ''x'' \<noteq> lit ''created_at''"
    "lit ''id'' \<noteq> lit ''created_at''"
    by (simp_all add: lit_def)
  have "objs (snd ?r) (fst ?r)
          = AList.update (lit ''created_at'') (JStr (lit ''2024-05-01T12:00:00'' @ lit ''Z''))
              (AList.update (lit ''id'') (JStr (lit ''u-1'')) (objs ?s0 0))"
    using facts by blast
  then have after: "objs (snd ?r) 0
       = [(lit ''x'', JInt 1), (lit ''id'', JStr (lit ''u-1'')),
          (lit ''created_at'', JStr (lit ''2024-05-01T12:00:00Z''))]"
    unfolding ret before using keys by (simp flip: lit_append)
  have get: "store_get (lit ''u-1'') (snd ?r) = (Inr (fst ?r), snd ?r)"
    using facts by blast
  from run after get show ?thesis
    unfolding ret by (intro conjI)
qed

lemma present_iff_lookup: "(k \<in> fst ` set al) = (\<exists>r. map_of al k = Some r)"
  using map_of_eq_None_iff [of al k] by auto

lemma get_artifact_present:
  "map_of (items s) k = Some r \<Longrightarrow> get_artifact k s = (Ok200 (objs s r), s)"
  by (simp add: get_artifact_def store_get_present)

lemma get_artifact_absent:
  "k \<notin> fst ` set (items s) \<Longrightarrow>
   get_artifact k s = (HTTPException 404 (lit ''Artifact not found''), s)"
  by (simp add: get_artifact_def store_get_absent)

lemma pair_of_parts: "fst p = a \<Longrightarrow> snd p = b \<Longrightarrow> p = (a, b)"
  by (cases p) simp

lemma save_artifact_eq:
  "save_artifact uid now body s =
     (Ok200 (AList.update (lit ''created_at'') (JStr (now @ lit ''Z''))
               (AList.update (lit ''id'') (JStr uid) body)),
      s\<lparr>objs := (objs s)(next_ref s :=
             AList.update (lit ''created_at'') (JStr (now @ lit ''Z''))
               (AList.update (lit ''id'') (JStr uid) body)),
        next_ref := Suc (next_ref s),
        items := AList.update uid (next_ref s) (items s)\<rparr>)"
  by (simp add: save_artifact_def new_dict_def store_add_eq)

text \<open>
  C7. For every state and identifier: \<^verbatim>\<open>store.get\<close> fails exactly when the identifier
  is not a key of the store, and then with \<^verbatim>\<open>KeyError\<close>, which the handler of
  \<^verbatim>\<open>GET /artifact/{id}\<close> turns into status 404 with the detail
  \<^verbatim>\<open>Artifact not found\<close>; for a key of the store both return the stored artifact; and
  neither call changes the state.
\<close>

theorem get_fails_iff_absent:
  "((\<exists>e. fst (store_get k s) = Inl e) = (k \<notin> fst ` set (items s)))
   \<and> (k \<notin> fst ` set (items s) \<longrightarrow>
        fst (store_get k s) = Inl (KeyError k)
        \<and> fst (get_artifact k s) = HTTPException 404 (lit ''Artifact not found''))
   \<and> (k \<in> fst ` set (items s) \<longrightarrow>
        (\<exists>r. map_of (items s) k = Some r
             \<and> fst (store_get k s) = Inr r
             \<and> fst (get_artifact k s) = Ok200 (objs s r)))
   \<and> snd (store_get k s) = s
   \<and> snd (get_artifact k s) = s"
proof (cases "k \<in> fst ` set (items s)")
  case True
  then obtain r where r: "map_of (items s) k = Some r"
    unfolding present_iff_lookup by blast
  from True show ?thesis
    using r by (simp add: store_get_present [OF r] get_artifact_present [OF r])
next
  case False
  then show ?thesis
    by (simp add: store_get_absent get_artifact_absent)
qed


text \<open>A store holding one artifact: its identifier is found, \<^verbatim>\<open>nonexistent\<close> is not.\<close>

theorem get_fails_iff_absent_witness:
  "lit ''u-1'' \<in> fst ` set (items (snd (save_artifact (lit ''u-1'') (lit ''2024-05-01T12:00:00'')
                                        [(lit ''x'', JInt 1)] init)))
   \<and> get_artifact (lit ''u-1'')
        (snd (save_artifact (lit ''u-1'') (lit ''2024-05-01T12:00:00'') [(lit ''x'', JInt 1)] init))
      = (Ok200 [(lit ''x'', JInt 1), (lit ''id'', JStr (lit ''u-1'')),
                (lit ''created_at'', JStr (lit ''2024-05-01T12:00:00Z''))],
         snd (save_artifact (lit ''u-1'') (lit ''2024-05-01T12:00:00'') [(lit ''x'', JInt 1)] init))
   \<and> lit ''nonexistent'' \<notin> fst ` set (items (snd (save_artifact (lit ''u-1'')
                                        (lit ''2024-05-01T12:00:00'') [(lit ''x'', JInt 1)] init)))
   \<and> store_get (lit ''nonexistent'')
        (snd (save_artifact (lit ''u-1'') (lit ''2024-05-01T12:00:00'') [(lit ''x'', JInt 1)] init))
      = (Inl (KeyError (lit ''nonexistent'')),
         snd (save_artifact (lit ''u-1'') (lit ''2024-05-01T12:00:00'') [(lit ''x'', JInt 1)] init))
   \<and> get_artifact (lit ''nonexistent'')
        (snd (save_artifact (lit ''u-1'') (lit ''2024-05-01T12:00:00'') [(lit ''x'', JInt 1)] init))
      = (HTTPException 404 (lit ''Artifact not found''),
         snd (save_artifact (lit ''u-1'') (lit ''2024-05-01T12:00:00'') [(lit ''x'', JInt 1)] init))"
proof -
  let ?s = "snd (save_artifact (lit ''u-1'') (lit ''2024-05-01T12:00:00'') [(lit ''x'', JInt 1)] init)"
  have keys: "lit ''x'' \<noteq> lit ''id''" "lit ''x'' \<noteq> lit ''created_at''"
    "lit ''id'' \<noteq> lit ''created_at''" "lit ''nonexistent'' \<noteq> lit ''u-1''"
    by (simp_all add: lit_def)
  have its: "items ?s = [(lit ''u-1'', 0)]"
    by (simp add: save_artifact_eq init_def)
  have obj: "objs ?s 0 = [(lit ''x'', JInt 1), (lit ''id'', JStr (lit ''u-1'')),
                (lit ''created_at'', JStr (lit ''2024-05-01T12:00:00Z''))]"
    using keys by (simp add: save_artifact_eq init_def flip: lit_append)
  have there: "lit ''u-1'' \<in> fst ` set (items ?s)"
    unfolding its by simp
  have absent: "lit ''nonexistent'' \<notin> fst ` set (items ?s)"
    unfolding its using keys by simp
  from get_fails_iff_absent [of "lit ''u-1''" ?s] there
  obtain r where r: "map_of (items ?s) (lit ''u-1'') = Some r"
    and found: "fst (get_artifact (lit ''u-1'') ?s) = Ok200 (objs ?s r)"
    and same: "snd (get_artifact (lit ''u-1'') ?s) = ?s"
    by blast
  from r have "r = 0"
    unfolding its by simp
  with found obj have ok: "fst (get_artifact (lit ''u-1'') ?s)
      = Ok200 [(lit ''x'', JInt 1), (lit ''id'', JStr (lit ''u-1'')),
                (lit ''created_at'', JStr (lit ''2024-05-01T12:00:00Z''))]"
    by simp
  from get_fails_iff_absent [of "lit ''nonexistent''" ?s] absent
  have err: "fst (store_get (lit ''nonexistent'') ?s) = Inl (KeyError (lit ''nonexistent''))"
    and resp: "fst (get_artifact (lit ''nonexistent'') ?s) = HTTPException 404 (lit ''Artifact not found'')"
    and same1: "snd (store_get (lit ''nonexistent'') ?s) = ?s"
    and same2: "snd (get_artifact (lit ''nonexistent'') ?s) = ?s"
    by blast+
  from ok same have a: "get_artifact (lit ''u-1'') ?s
      = (Ok200 [(lit ''x'', JInt 1), (lit ''id'', JStr (lit ''u-1'')),
                (lit ''created_at'', JStr (lit ''2024-05-01T12:00:00Z''))], ?s)"
    by (rule pair_of_parts)
  from err same1 have b: "store_get (lit ''nonexistent'') ?s
      = (Inl (KeyError (lit ''nonexistent'')), ?s)"
    by (rule pair_of_parts)
  from resp same2 have c: "get_artifact (lit ''nonexistent'') ?s
      = (HTTPException 404 (lit ''Artifact not found''), ?s)"
    by (rule pair_of_parts)
  from there a absent b c show ?thesis
    by (intro conjI)
qed

lemma store_ok_init: "store_ok init"
  by (simp add: store_ok_def init_def)

lemma store_okD:
  assumes "store_ok s" and "(k, r) \<in> set (items s)"
  shows "r < next_ref s" and "map_of (objs s r) (lit ''id'') = Some (JStr k)"
  using assms by (auto simp: store_ok_def list_all_iff)

lemma stored_ids_keys:
  assumes "store_ok s"
  shows "stored_ids s = map (\<lambda>p. Some (JStr (fst p))) (items s)"
proof -
  have "map_of (objs s (snd p)) (lit ''id'') = Some (JStr (fst p))" if "p \<in> set (items s)" for p
    using store_okD(2) [OF assms, of "fst p" "snd p"] that by simp
  then show ?thesis
    by (simp add: stored_ids_def store_list_def)
qed

lemma stored_ids_distinct:
  assumes "store_ok s"
  shows "distinct (stored_ids s)"
proof -
  have "distinct (map fst (items s))"
    using assms by (simp add: store_ok_def)
  then have "distinct (map (\<lambda>k. Some (JStr k)) (map fst (items s)))"
    by (simp add: distinct_map inj_on_def)
  then show ?thesis
    by (simp add: stored_ids_keys [OF assms] comp_def)
qed

lemma store_add_fresh:
  assumes "uid \<notin> fst ` set (items s)"
  shows "snd (store_add uid now payload s) =
     s\<lparr>objs := (objs s)(payload :=
             AList.update (lit ''created_at'') (JStr (now @ lit ''Z''))
               (AList.update (lit ''id'') (JStr uid) (objs s payload))),
        items := items s @ [(uid, payload)]\<rparr>"
  by (simp add: store_add_eq update_absent [OF assms])

lemma store_add_preserves:
  assumes ok: "store_ok s"
    and uid: "uid \<notin> fst ` set (items s)"
    and new: "payload \<notin> snd ` set (items s)"
    and alloc: "payload < next_ref s"
  shows "store_ok (snd (store_add uid now payload s))"
    and "\<forall>r \<in> snd ` set (items s). objs (snd (store_add uid now payload s)) r = objs s r"
    and "fst (store_list (snd (store_add uid now payload s))) = fst (store_list s) @ [payload]"
proof -
  let ?s' = "snd (store_add uid now payload s)"
  note s' = store_add_fresh [OF uid, of now payload]
  show frame: "\<forall>r \<in> snd ` set (items s). objs ?s' r = objs s r"
    using new by (auto simp: s')
  show "fst (store_list ?s') = fst (store_list s) @ [payload]"
    by (simp add: s' store_list_def)
  have d1: "distinct (map fst (items ?s'))"
    using ok uid by (simp add: s' store_ok_def)
  have d2: "distinct (map snd (items ?s'))"
    using ok new by (simp add: s' store_ok_def)
  have old: "r < next_ref ?s' \<and> map_of (objs ?s' r) (lit ''id'') = Some (JStr k)"
    if "(k, r) \<in> set (items s)" for k r
  proof -
    from that have "r \<in> snd ` set (items s)"
      by (rule image_eqI [rotated]) simp
    with frame have "objs ?s' r = objs s r"
      by blast
    with store_okD [OF ok that] show ?thesis
      by (simp add: s')
  qed
  have fresh: "payload < next_ref ?s' \<and> map_of (objs ?s' payload) (lit ''id'') = Some (JStr uid)"
    using alloc by (simp add: s' stamped_id)
  have "list_all (\<lambda>(k, r). r < next_ref ?s' \<and> map_of (objs ?s' r) (lit ''id'') = Some (JStr k))
          (items ?s')"
    unfolding list_all_iff
  proof (intro ballI)
    fix p assume "p \<in> set (items ?s')"
    then have "p \<in> set (items s) \<or> p = (uid, payload)"
      by (auto simp: s')
    then show "case p of (k, r) \<Rightarrow>
        r < next_ref ?s' \<and> map_of (objs ?s' r) (lit ''id'') = Some (JStr k)"
      using old [of "fst p" "snd p"] fresh by auto
  qed
  with d1 d2 show "store_ok ?s'"
    by (simp add: store_ok_def)
qed


lemma new_dict_preserves:
  assumes ok: "store_ok s"
  shows "store_ok (snd (new_dict d s))"
    and "next_ref s \<notin> snd ` set (items (snd (new_dict d s)))"
    and "\<forall>r \<in> snd ` set (items s). objs (snd (new_dict d s)) r = objs s r"
proof -
  let ?s1 = "snd (new_dict d s)"
  have below: "r < next_ref s" if "r \<in> snd ` set (items s)" for r
    using that store_okD(1) [OF ok] by auto
  have "next_ref s \<notin> snd ` set (items s)"
    using below [of "next_ref s"] by blast
  then show fresh: "next_ref s \<notin> snd ` set (items ?s1)"
    by (simp add: new_dict_def)
  have "r \<noteq> next_ref s" if "r \<in> snd ` set (items s)" for r
    using below [OF that] by simp
  then show frame: "\<forall>r \<in> snd ` set (items s). objs ?s1 r = objs s r"
    by (simp add: new_dict_def)
  have "list_all (\<lambda>(k, r). r < next_ref ?s1 \<and> map_of (objs ?s1 r) (lit ''id'') = Some (JStr k))
          (items ?s1)"
    unfolding list_all_iff
  proof (intro ballI)
    fix p assume "p \<in> set (items ?s1)"
    then have p: "(fst p, snd p) \<in> set (items s)"
      by (simp add: new_dict_def)
    then have "snd p \<in> snd ` set (items s)"
      by (rule image_eqI [rotated]) simp
    with frame have "objs ?s1 (snd p) = objs s (snd p)"
      by blast
    with store_okD [OF ok p] show "case p of (k, r) \<Rightarrow>
        r < next_ref ?s1 \<and> map_of (objs ?s1 r) (lit ''id'') = Some (JStr k)"
      by (simp add: new_dict_def case_prod_beta)
  qed
  with ok show "store_ok ?s1"
    by (simp add: store_ok_def new_dict_def)
qed

lemma save_artifact_snd:
  "snd (save_artifact uid now body s)
     = snd (store_add uid now (next_ref s) (snd (new_dict body s)))"
  by (simp add: save_artifact_def new_dict_def store_add_eq)

lemma save_artifact_preserves:
  assumes ok: "store_ok s" and uid: "uid \<notin> fst ` set (items s)"
  shows "store_ok (snd (save_artifact uid now body s))"
    and "\<forall>r \<in> snd ` set (items s). objs (snd (save_artifact uid now body s)) r = objs s r"
    and "fst (store_list (snd (save_artifact uid now body s))) = fst (store_list s) @ [next_ref s]"
proof -
  let ?s1 = "snd (new_dict body s)"
  have its: "items ?s1 = items s"
    by (simp add: new_dict_def)
  have alloc: "next_ref s < next_ref ?s1"
    by (simp add: new_dict_def)
  note nd = new_dict_preserves [OF ok, of body]
  have uid1: "uid \<notin> fst ` set (items ?s1)"
    using uid by (simp add: its)
  note add = store_add_preserves [OF nd(1) uid1 nd(2) alloc, of now]
  show "store_ok (snd (save_artifact uid now body s))"
    unfolding save_artifact_snd by (rule add(1))
  show "\<forall>r \<in> snd ` set (items s). objs (snd (save_artifact uid now body s)) r = objs s r"
    unfolding save_artifact_snd using add(2) nd(3) by (simp add: its)
  show "fst (store_list (snd (save_artifact uid now body s))) = fst (store_list s) @ [next_ref s]"
    unfolding save_artifact_snd using add(3) by (simp add: store_list_def its)
qed

lemma reads_keep_state:
  "snd (store_list s) = s" "snd (store_get k s) = s"
  "snd (list_artifacts s) = s" "snd (get_artifact k s) = s"
proof -
  show "snd (store_list s) = s"
    by (simp add: store_list_def)
  show get: "snd (store_get k s) = s"
    by (simp add: store_get_def split: option.split)
  show "snd (list_artifacts s) = s"
    by (simp add: list_artifacts_def store_list_def)
  obtain res where res: "store_get k s = (res, s)"
    using get by (cases "store_get k s") simp
  show "snd (get_artifact k s) = s"
    by (cases res) (simp_all add: get_artifact_def res split: py_error.split)
qed

lemma example_keys:
  "lit ''x'' \<noteq> lit ''id''" "lit ''x'' \<noteq> lit ''created_at''"
  "lit ''y'' \<noteq> lit ''id''" "lit ''y'' \<noteq> lit ''created_at''"
  "lit ''id'' \<noteq> lit ''created_at''" "lit ''created_at'' \<noteq> lit ''id''"
  "lit ''u-1'' \<noteq> lit ''u-2''" "lit ''u-2'' \<noteq> lit ''u-1''"
  by (simp_all add: lit_def)

text \<open>
  C8, as amended. The empty store satisfies the invariant, and the invariant gives
  pairwise distinct \<^verbatim>\<open>id\<close> values. When the generated identifier is not yet a key of
  the store and the dict passed in is not one the store already holds, \<^verbatim>\<open>store.add\<close>
  keeps the invariant, leaves the \<^verbatim>\<open>id\<close> and \<^verbatim>\<open>created_at\<close> of every artifact already
  stored as they were, removes none, and puts the new one last in \<^verbatim>\<open>store.list()\<close>.
  \<^verbatim>\<open>POST /artifact\<close> passes a dict parsed for that request, so for it the condition on
  the identifier is enough, and every artifact already stored keeps its whole content.
  \<^verbatim>\<open>store.list\<close>, \<^verbatim>\<open>store.get\<close> and the two \<^verbatim>\<open>GET\<close> handlers leave the state as it is.
\<close>

theorem store_invariants_preserved:
  "store_ok init
   \<and> (store_ok s \<longrightarrow> distinct (stored_ids s))
   \<and> (store_ok s \<and> uid \<notin> fst ` set (items s)
        \<and> payload \<notin> snd ` set (items s) \<and> payload < next_ref s \<longrightarrow>
        (let s' = snd (store_add uid now payload s)
         in store_ok s'
            \<and> (\<forall>r \<in> snd ` set (items s).
                  map_of (objs s' r) (lit ''id'') = map_of (objs s r) (lit ''id'')
                  \<and> map_of (objs s' r) (lit ''created_at'')
                      = map_of (objs s r) (lit ''created_at''))
            \<and> fst (store_list s') = fst (store_list s) @ [payload]))
   \<and> (store_ok s \<and> uid \<notin> fst ` set (items s) \<longrightarrow>
        (let s' = snd (save_artifact uid now body s)
         in store_ok s'
            \<and> (\<forall>r \<in> snd ` set (items s). objs s' r = objs s r)
            \<and> fst (store_list s') = fst (store_list s) @ [next_ref s]))
   \<and> snd (store_list s) = s \<and> snd (store_get k s) = s
   \<and> snd (list_artifacts s) = s \<and> snd (get_artifact k s) = s"
  unfolding Let_def
proof (intro conjI impI ballI; (elim conjE)?)
  show "store_ok init"
    by (rule store_ok_init)
  show "snd (store_list s) = s" "snd (store_get k s) = s"
    "snd (list_artifacts s) = s" "snd (get_artifact k s) = s"
    by (rule reads_keep_state)+
next
  assume "store_ok s"
  then show "distinct (stored_ids s)"
    by (rule stored_ids_distinct)
next
  assume h: "store_ok s" "uid \<notin> fst ` set (items s)"
    "payload \<notin> snd ` set (items s)" "payload < next_ref s"
  note add = store_add_preserves [OF h, of now]
  show "store_ok (snd (store_add uid now payload s))"
    by (rule add(1))
  show "fst (store_list (snd (store_add uid now payload s))) = fst (store_list s) @ [payload]"
    by (rule add(3))
  fix r assume "r \<in> snd ` set (items s)"
  with add(2) have same: "objs (snd (store_add uid now payload s)) r = objs s r"
    by blast
  show "map_of (objs (snd (store_add uid now payload s)) r) (lit ''id'')
          = map_of (objs s r) (lit ''id'')"
    unfolding same by (rule refl)
  show "map_of (objs (snd (store_add uid now payload s)) r) (lit ''created_at'')
          = map_of (objs s r) (lit ''created_at'')"
    unfolding same by (rule refl)
next
  assume h: "store_ok s" "uid \<notin> fst ` set (items s)"
  note save = save_artifact_preserves [OF h, of now body]
  show "store_ok (snd (save_artifact uid now body s))"
    by (rule save(1))
  show "fst (store_list (snd (save_artifact uid now body s))) = fst (store_list s) @ [next_ref s]"
    by (rule save(3))
  fix r assume "r \<in> snd ` set (items s)"
  with save(2) show "objs (snd (save_artifact uid now body s)) r = objs s r"
    by blast
qed

text \<open>The first example run: both preconditions hold at each step.\<close>

theorem store_invariants_preserved_witness:
  "store_ok first_saved \<and> fst (store_list first_saved) = [0]
   \<and> (store_ok second_parsed \<and> lit ''u-2'' \<notin> fst ` set (items second_parsed)
        \<and> 1 \<notin> snd ` set (items second_parsed) \<and> 1 < next_ref second_parsed)
   \<and> store_ok second_added \<and> fst (store_list second_added) = [0, 1]
   \<and> map_of (objs second_added 0) (lit ''id'') = Some (JStr (lit ''u-1''))
   \<and> map_of (objs second_added 0) (lit ''created_at'')
       = Some (JStr (lit ''2024-05-01T12:00:00Z''))
   \<and> distinct (stored_ids second_added)
   \<and> stored_ids second_added = [Some (JStr (lit ''u-1'')), Some (JStr (lit ''u-2''))]"
proof -
  note thm0 = store_invariants_preserved
    [of init "lit ''u-1''" 0 "lit ''2024-05-01T12:00:00''" "[(lit ''x'', JInt 1)]" "[]"]
  have ok0: "store_ok init"
    using thm0 by blast
  have fresh0: "lit ''u-1'' \<notin> fst ` set (items init)"
    by (simp add: init_def)
  from thm0 ok0 fresh0 have ok1: "store_ok first_saved"
    and list1: "fst (store_list first_saved) = fst (store_list init) @ [next_ref init]"
    unfolding first_saved_def Let_def by blast+
  have l1: "fst (store_list first_saved) = [0]"
    unfolding list1 by (simp add: store_list_def init_def)
  have its1: "items first_saved = [(lit ''u-1'', 0)]"
    by (simp add: first_saved_def save_artifact_eq init_def)
  have its2: "items second_parsed = [(lit ''u-1'', 0)]"
    by (simp add: second_parsed_def new_dict_def its1)
  have nxt2: "next_ref second_parsed = 2"
    by (simp add: second_parsed_def new_dict_def first_saved_def save_artifact_eq init_def)
  have ok2: "store_ok second_parsed"
    unfolding second_parsed_def using ok1 by (rule new_dict_preserves(1))
  have pre: "store_ok second_parsed \<and> lit ''u-2'' \<notin> fst ` set (items second_parsed)
        \<and> 1 \<notin> snd ` set (items second_parsed) \<and> 1 < next_ref second_parsed"
    using ok2 example_keys by (simp add: its2 nxt2)
  note thm2 = store_invariants_preserved
    [of second_parsed "lit ''u-2''" 1 "lit ''2024-05-01T12:00:07''" "[]" "[]"]
  from thm2 pre have ok3: "store_ok second_added"
    and frame: "\<forall>r \<in> snd ` set (items second_parsed).
        map_of (objs second_added r) (lit ''id'') = map_of (objs second_parsed r) (lit ''id'')
        \<and> map_of (objs second_added r) (lit ''created_at'')
            = map_of (objs second_parsed r) (lit ''created_at'')"
    and list3: "fst (store_list second_added) = fst (store_list second_parsed) @ [1]"
    unfolding second_added_def Let_def by blast+
  have l3: "fst (store_list second_added) = [0, 1]"
    unfolding list3 by (simp add: store_list_def its2)
  have obj2: "objs second_parsed 0
      = [(lit ''x'', JInt 1), (lit ''id'', JStr (lit ''u-1'')),
         (lit ''created_at'', JStr (lit ''2024-05-01T12:00:00Z''))]"
    using example_keys
    by (simp add: second_parsed_def new_dict_def first_saved_def save_artifact_eq init_def
          flip: lit_append)
  from frame have "map_of (objs second_added 0) (lit ''id'')
        = map_of (objs second_parsed 0) (lit ''id'')"
    and "map_of (objs second_added 0) (lit ''created_at'')
        = map_of (objs second_parsed 0) (lit ''created_at'')"
    by (simp_all add: its2)
  then have same: "map_of (objs second_added 0) (lit ''id'') = Some (JStr (lit ''u-1''))"
    "map_of (objs second_added 0) (lit ''created_at'') = Some (JStr (lit ''2024-05-01T12:00:00Z''))"
    using example_keys by (simp_all add: obj2)
  note thm3 = store_invariants_preserved [of second_added "[]" 0 "[]" "[]" "[]"]
  from thm3 ok3 have dist: "distinct (stored_ids second_added)"
    by blast
  have its3: "items second_added = [(lit ''u-1'', 0), (lit ''u-2'', 1)]"
    using example_keys by (simp add: second_added_def store_add_eq its2)
  from ok3 have ids: "stored_ids second_added = [Some (JStr (lit ''u-1'')), Some (JStr (lit ''u-2''))]"
    by (simp add: stored_ids_keys its3)
  from ok1 l1 pre ok3 l3 same dist ids show ?thesis
    by blast
qed

text \<open>
  The claim as first stated (every operation preserves the invariants) fails in two
  ways. When \<^verbatim>\<open>store.add\<close> is given a dict it already holds, even with a new identifier,
  the one dict is stored under both keys, its \<^verbatim>\<open>id\<close> and \<^verbatim>\<open>created_at\<close> are
  overwritten, and \<^verbatim>\<open>store.list()\<close> shows the same \<^verbatim>\<open>id\<close> twice. When \<^verbatim>\<open>uuid4\<close> returns
  an identifier that is already a key, \<^verbatim>\<open>POST /artifact\<close> replaces the artifact stored
  under it: the first artifact is no longer listed or found, and the second answers for
  its identifier.
\<close>

theorem readd_or_repeated_id_breaks_invariants:
  "lit ''u-2'' \<notin> fst ` set (items added_once)
   \<and> fst (store_list added_once) = [0]
   \<and> map_of (objs added_once 0) (lit ''id'') = Some (JStr (lit ''u-1''))
   \<and> map_of (objs added_once 0) (lit ''created_at'') = Some (JStr (lit ''2024-05-01T12:00:00Z''))
   \<and> fst (store_list added_again) = [0, 0]
   \<and> map_of (objs added_again 0) (lit ''id'') = Some (JStr (lit ''u-2''))
   \<and> map_of (objs added_again 0) (lit ''created_at'') = Some (JStr (lit ''2024-05-01T12:00:07Z''))
   \<and> stored_ids added_again = [Some (JStr (lit ''u-2'')), Some (JStr (lit ''u-2''))]
   \<and> \<not> distinct (stored_ids added_again)
   \<and> lit ''u-1'' \<in> fst ` set (items first_saved)
   \<and> fst (store_list first_saved) = [0]
   \<and> fst (store_list saved_over) = [1]
   \<and> fst (get_artifact (lit ''u-1'') saved_over)
       = Ok200 [(lit ''y'', JInt 2), (lit ''id'', JStr (lit ''u-1'')),
                (lit ''created_at'', JStr (lit ''2024-05-01T12:00:07Z''))]"
proof -
  have its1: "items added_once = [(lit ''u-1'', 0)]"
    by (simp add: added_once_def store_add_eq new_dict_def init_def)
  have obj1: "objs added_once 0
      = [(lit ''x'', JInt 1), (lit ''id'', JStr (lit ''u-1'')),
         (lit ''created_at'', JStr (lit ''2024-05-01T12:00:00Z''))]"
    using example_keys
    by (simp add: added_once_def store_add_eq new_dict_def init_def flip: lit_append)
  have its2: "items added_again = [(lit ''u-1'', 0), (lit ''u-2'', 0)]"
    using example_keys by (simp add: added_again_def store_add_eq its1)
  have obj2: "objs added_again 0
      = [(lit ''x'', JInt 1), (lit ''id'', JStr (lit ''u-2'')),
         (lit ''created_at'', JStr (lit ''2024-05-01T12:00:07Z''))]"
    using example_keys
    by (simp add: added_again_def store_add_eq obj1 flip: lit_append)
  have ids: "stored_ids added_again = [Some (JStr (lit ''u-2'')), Some (JStr (lit ''u-2''))]"
    using example_keys by (simp add: stored_ids_def store_list_def its2 obj2)
  have a: "lit ''u-2'' \<notin> fst ` set (items added_once)"
    using example_keys by (simp add: its1)
  have b: "fst (store_list added_once) = [0]" "fst (store_list added_again) = [0, 0]"
    by (simp_all add: store_list_def its1 its2)
  have c: "map_of (objs added_once 0) (lit ''id'') = Some (JStr (lit ''u-1''))"
    "map_of (objs added_once 0) (lit ''created_at'') = Some (JStr (lit ''2024-05-01T12:00:00Z''))"
    using example_keys by (simp_all add: obj1)
  have d: "map_of (objs added_again 0) (lit ''id'') = Some (JStr (lit ''u-2''))"
    "map_of (objs added_again 0) (lit ''created_at'') = Some (JStr (lit ''2024-05-01T12:00:07Z''))"
    using example_keys by (simp_all add: obj2)
  have e: "\<not> distinct (stored_ids added_again)"
    unfolding ids by simp
  have its3: "items first_saved = [(lit ''u-1'', 0)]"
    by (simp add: first_saved_def save_artifact_eq init_def)
  have nxt3: "next_ref first_saved = 1"
    by (simp add: first_saved_def save_artifact_eq init_def)
  have its4: "items saved_over = [(lit ''u-1'', 1)]"
    by (simp add: saved_over_def save_artifact_eq its3 nxt3)
  have obj4: "objs saved_over 1
      = [(lit ''y'', JInt 2), (lit ''id'', JStr (lit ''u-1'')),
         (lit ''created_at'', JStr (lit ''2024-05-01T12:00:07Z''))]"
    using example_keys
    by (simp add: saved_over_def save_artifact_eq nxt3 flip: lit_append)
  have f: "lit ''u-1'' \<in> fst ` set (items first_saved)"
    by (simp add: its3)
  have g: "fst (store_list first_saved) = [0]" "fst (store_list saved_over) = [1]"
    by (simp_all add: store_list_def its3 its4)
  have "map_of (items saved_over) (lit ''u-1'') = Some 1"
    by (simp add: its4)
  then have "get_artifact (lit ''u-1'') saved_over = (Ok200 (objs saved_over 1), saved_over)"
    by (rule get_artifact_present)
  then have h: "fst (get_artifact (lit ''u-1'') saved_over)
       = Ok200 [(lit ''y'', JInt 2), (lit ''id'', JStr (lit ''u-1'')),
                (lit ''created_at'', JStr (lit ''2024-05-01T12:00:07Z''))]"
    by (simp only: obj4 fst_conv)
  from a b c d ids e f g h show ?thesis
    by (intro conjI)
qed

end
